theory Spec2Isabelle
  imports Main
begin

section \<open>The website stack of sudonymity/cdk\<close>

text \<open>
  The repository declares one stack class, \<open>WebsiteStack\<close> (\<open>src/lib/website-stack.ts\<close>),
  and an entry point that instantiates it twice (\<open>src/bin/cdk.ts\<close>). The constructor
  derives a site domain from its props and hands property objects to the constructs
  of aws-cdk-lib. The library is not part of the repository: each of its constructs is
  modelled as the record of the properties the constructor passes to it, in the order
  of the source. A call into the library may throw (the stack constructor, the zone
  lookup and the bucket constructor validate their arguments), and the constructor has
  no \<open>try\<close>: which calls the library accepts is a parameter of the model, and a
  rejected call ends the construction with the library's error.

  JavaScript strings are modelled as \<open>string\<close>; the only string operation of the
  source is concatenation. A property that may be absent (\<open>undefined\<close>) is an
  \<open>option\<close>.
\<close>

subsection \<open>Props (\<open>website-stack.ts\<close>, lines 17-32)\<close>

record Environment =
  account :: "string option"
  region :: "string option"

text \<open>
  \<open>WebsiteStackProps\<close> is the union of \<open>ProdWebsiteStackProps\<close> (\<open>isProd: true\<close>) and
  \<open>NonProdWebsiteStackProps\<close> (\<open>isProd: false\<close>, \<open>siteSubDomain: string\<close>), both extending
  \<open>StackProps\<close> with \<open>domainName: string\<close>. The constructor reads \<open>props.isProd\<close>,
  \<open>props.domainName\<close>, \<open>props.siteSubDomain\<close> and \<open>props.env\<close> off one object, so the
  props are a record with the discriminator as a field. TypeScript's structural typing
  lets a production object carry a stray \<open>siteSubDomain\<close>; a non-production object
  without one is excluded by the type, and reaches the constructor only from untyped
  callers.
\<close>

record WebsiteStackProps =
  env :: "Environment option"
  domainName :: string
  isProd :: bool
  siteSubDomain :: "string option"

subsection \<open>Constructs of aws-cdk-lib, as the properties they are given\<close>

text \<open>A construct scope is identified by its path of ids; \<open>new cdk.App()\<close> is the root.\<close>

type_synonym Construct = "string list"

record HostedZone =
  zone_id :: string
  zone_domainName :: string

record OriginAccessIdentity =
  oai_id :: string
  oai_comment :: string

datatype BlockPublicAccess = BLOCK_ALL | BLOCK_ACLS

datatype RemovalPolicy = DESTROY | RETAIN | SNAPSHOT | RETAIN_ON_UPDATE_OR_DELETE

datatype Arn = ArnForObjects string string

datatype Principal = CanonicalUserPrincipal_S3CanonicalUserId string

record PolicyStatement =
  actions :: "string list"
  resources :: "Arn list"
  principals :: "Principal list"

record Bucket =
  bucket_id :: string
  bucketName :: string
  publicReadAccess :: bool
  blockPublicAccess :: BlockPublicAccess
  removalPolicy :: RemovalPolicy
  resourcePolicy :: "PolicyStatement list"

datatype CertificateValidation = CertificateValidation_fromDns HostedZone

record Certificate =
  cert_id :: string
  cert_domainName :: string
  validation :: CertificateValidation
  subjectAlternativeNames :: "string list option"

datatype Duration = Duration_seconds int

datatype ViewerProtocolPolicy = HTTPS_ONLY | REDIRECT_TO_HTTPS | ALLOW_ALL

record S3Origin =
  origin_bucket :: Bucket
  originAccessIdentity :: "OriginAccessIdentity option"

record BehaviorOptions =
  origin :: S3Origin
  viewerProtocolPolicy :: ViewerProtocolPolicy

record ErrorResponse =
  httpStatus :: int
  ttl :: "Duration option"
  responseHttpStatus :: "int option"
  responsePagePath :: "string option"

record Distribution =
  dist_id :: string
  certificate :: Certificate
  domainNames :: "string list"
  defaultRootObject :: string
  defaultBehavior :: BehaviorOptions
  errorResponses :: "ErrorResponse list"

datatype RecordTarget = RecordTarget_fromAlias_CloudFrontTarget Distribution

record ARecord =
  record_id :: string
  zone :: HostedZone
  recordName :: "string option"
  target :: RecordTarget

text \<open>
  The value of an output is a literal string or an attribute of a construct that is
  only known at deployment (\<open>bucketName\<close>, \<open>distributionDomainName\<close>).
\<close>

datatype OutputValue = Literal string | Attribute string string

record CfnOutput =
  output_id :: string
  output_value :: OutputValue

subsection \<open>The stack\<close>

text \<open>
  \<open>class WebsiteStack extends Stack\<close>: the base object holds what \<open>super\<close> is given,
  and is the \<open>this\<close> every construct of the stack is created under.
\<close>

record Stack =
  stack_scope :: Construct
  stack_id :: string
  stack_env :: Environment

record WebsiteStack = Stack +
  stack_zone :: HostedZone
  cloudfrontOAI :: OriginAccessIdentity
  siteBucket :: Bucket
  stack_certificate :: Certificate
  siteDistribution :: Distribution
  aRecords :: "ARecord list"
  outputs :: "CfnOutput list"

subsection \<open>Calls into the library\<close>

text \<open>
  The calls the constructor makes into aws-cdk-lib, each with the stack it is made
  under and the properties it is given: \<open>super(scope, id, {...props, env})\<close> (line 76),
  \<open>HostedZone.fromLookup\<close> (92), \<open>new cloudfront.OriginAccessIdentity\<close> (97),
  \<open>new s3.Bucket\<close> (106), \<open>siteBucket.addToResourcePolicy\<close> (114),
  \<open>new acm.Certificate\<close> (128), \<open>new cloudfront.Distribution\<close> (137),
  \<open>new route53.ARecord\<close> (173, 184) and \<open>new CfnOutput\<close> (193-195). The value
  constructors inside an argument (\<open>new iam.PolicyStatement\<close>, \<open>Duration.seconds\<close>,
  \<open>new S3Origin\<close>, \<open>RecordTarget.fromAlias\<close>, ...) are evaluated while the argument
  of the enclosing call is built, and count with that call.
\<close>

datatype LibCall =
    Stack_super Construct string WebsiteStackProps
  | HostedZone_fromLookup Stack HostedZone
  | OriginAccessIdentity_new Stack OriginAccessIdentity
  | Bucket_new Stack Bucket
  | Bucket_addToResourcePolicy Stack Bucket PolicyStatement
  | Certificate_new Stack Certificate
  | Distribution_new Stack Distribution
  | ARecord_new Stack ARecord
  | CfnOutput_new Stack CfnOutput

text \<open>
  A library says of each call whether it returns (\<open>True\<close>) or throws. The theorems
  hold for every library.
\<close>

type_synonym Library = "LibCall \<Rightarrow> bool"

text \<open>
  The source declares no error class, and no line of the constructor or of the entry
  point has a \<open>throw\<close> or a \<open>try\<close>: the only errors of a run are those thrown by a
  call into the library, which leave the constructor as they are. \<open>LibraryError c\<close> is
  the error thrown by the call \<open>c\<close>. \<open>ConfigurationError\<close> is the failure the
  specification names for a check by the stack itself; it is declared so that its
  absence can be stated.
\<close>

datatype error = ConfigurationError | LibraryError LibCall

text \<open>A template literal \<open>`${x}`\<close> prints an absent \<open>x\<close> as \<open>undefined\<close>.\<close>

definition template_string :: "string option \<Rightarrow> string" where
  "template_string x = (case x of None \<Rightarrow> ''undefined'' | Some s \<Rightarrow> s)"

text \<open>Line 88: \<open>const siteSubDomain = props.isProd ? "www" : props.siteSubDomain\<close>.\<close>

definition WebsiteStack_siteSubDomain :: "WebsiteStackProps \<Rightarrow> string option" where
  "WebsiteStack_siteSubDomain props =
     (if isProd props then Some ''www'' else siteSubDomain props)"

text \<open>Line 89: \<open>const siteDomain = `${siteSubDomain}.${props.domainName}`\<close>.\<close>

definition WebsiteStack_siteDomain :: "WebsiteStackProps \<Rightarrow> string" where
  "WebsiteStack_siteDomain props =
     template_string (WebsiteStack_siteSubDomain props) @ ''.'' @ domainName props"

text \<open>\<open>bucket.addToResourcePolicy(statement)\<close> (line 114) appends to the bucket policy.\<close>

definition addToResourcePolicy :: "Bucket \<Rightarrow> PolicyStatement \<Rightarrow> Bucket" where
  "addToResourcePolicy b s = b\<lparr>resourcePolicy := resourcePolicy b @ [s]\<rparr>"

text \<open>
  The constructor, lines 75-198. Its own statements only build values, so they are
  bound first, in the order of the source; the calls into the library are then taken
  in the order the source makes them, and the first one the library rejects ends the
  construction with its error. When every call returns, the result is the stack.
\<close>

definition WebsiteStack_constructor ::
  "Library \<Rightarrow> Construct \<Rightarrow> string \<Rightarrow> WebsiteStackProps \<Rightarrow> error + WebsiteStack" where
  "WebsiteStack_constructor lib scope sid props =
     (let superEnv = \<lparr>account = (case env props of None \<Rightarrow> None | Some e \<Rightarrow> account e),
                      region = Some ''us-east-1''\<rparr>;
          this = \<lparr>stack_scope = scope, stack_id = sid, stack_env = superEnv\<rparr>;
          siteDomain = WebsiteStack_siteDomain props;
          zone = \<lparr>zone_id = ''Zone'', zone_domainName = domainName props\<rparr>;
          oai = \<lparr>oai_id = ''cloudfront-OAI'', oai_comment = ''OAI for '' @ siteDomain\<rparr>;
          bucket0 = \<lparr>bucket_id = ''SiteBucket'',
                     bucketName = siteDomain,
                     publicReadAccess = False,
                     blockPublicAccess = BLOCK_ALL,
                     removalPolicy = RETAIN,
                     resourcePolicy = []\<rparr>;
          statement = \<lparr>actions = [''s3:GetObject''],
                       resources = [ArnForObjects (bucket_id bucket0) ''*''],
                       principals = [CanonicalUserPrincipal_S3CanonicalUserId (oai_id oai)]\<rparr>;
          bucket = addToResourcePolicy bucket0 statement;
          cert = \<lparr>cert_id = ''SiteCertificate'',
                  cert_domainName = siteDomain,
                  validation = CertificateValidation_fromDns zone,
                  subjectAlternativeNames =
                    (if isProd props then Some [domainName props] else None)\<rparr>;
          dist = \<lparr>dist_id = ''SiteDistribution'',
                  certificate = cert,
                  domainNames = [siteDomain] @ (if isProd props then [domainName props] else []),
                  defaultRootObject = ''index.html'',
                  defaultBehavior =
                    \<lparr>origin = \<lparr>origin_bucket = bucket, originAccessIdentity = Some oai\<rparr>,
                     viewerProtocolPolicy = REDIRECT_TO_HTTPS\<rparr>,
                  errorResponses =
                    [\<lparr>httpStatus = 404,
                      ttl = Some (Duration_seconds 0),
                      responseHttpStatus = Some 200,
                      responsePagePath = Some ''/index.html''\<rparr>,
                     \<lparr>httpStatus = 403,
                      ttl = Some (Duration_seconds 0),
                      responseHttpStatus = Some 200,
                      responsePagePath = Some ''/index.html''\<rparr>]\<rparr>;
          siteAliasRecord = \<lparr>record_id = ''SiteAliasRecord'',
                             zone = zone,
                             recordName = Some siteDomain,
                             target = RecordTarget_fromAlias_CloudFrontTarget dist\<rparr>;
          apexRecords =
            (if isProd props
             then [\<lparr>record_id = ''SiteAliasRecordApex'',
                    zone = zone,
                    recordName = None,
                    target = RecordTarget_fromAlias_CloudFrontTarget dist\<rparr>]
             else []);
          cfnOutputs =
            [\<lparr>output_id = ''Site'', output_value = Literal (''https://'' @ siteDomain)\<rparr>,
             \<lparr>output_id = ''Bucket'',
              output_value = Attribute (bucket_id bucket) ''bucketName''\<rparr>,
             \<lparr>output_id = ''DistributionDomainName'',
              output_value = Attribute (dist_id dist) ''distributionDomainName''\<rparr>]
      in case List.find (\<lambda>c. \<not> lib c)
                ([Stack_super scope sid (props\<lparr>env := Some superEnv\<rparr>),
                  HostedZone_fromLookup this zone,
                  OriginAccessIdentity_new this oai,
                  Bucket_new this bucket0,
                  Bucket_addToResourcePolicy this bucket0 statement,
                  Certificate_new this cert,
                  Distribution_new this dist,
                  ARecord_new this siteAliasRecord]
                 @ map (ARecord_new this) apexRecords
                 @ map (CfnOutput_new this) cfnOutputs) of
           Some c \<Rightarrow> Inl (LibraryError c)
         | None \<Rightarrow>
             Inr \<lparr>stack_scope = scope,
                  stack_id = sid,
                  stack_env = superEnv,
                  stack_zone = zone,
                  cloudfrontOAI = oai,
                  siteBucket = bucket,
                  stack_certificate = cert,
                  siteDistribution = dist,
                  aRecords = siteAliasRecord # apexRecords,
                  outputs = cfnOutputs\<rparr>)"

subsection \<open>What a stack covers\<close>

text \<open>
  The domains of a certificate are its primary domain followed by its subject
  alternative names; the seconds of a duration are the number it was made from.
\<close>

definition certificateDomains :: "Certificate \<Rightarrow> string list" where
  "certificateDomains c =
     cert_domainName c # (case subjectAlternativeNames c of None \<Rightarrow> [] | Some sans \<Rightarrow> sans)"

fun toSeconds :: "Duration \<Rightarrow> int" where
  "toSeconds (Duration_seconds n) = n"

subsection \<open>The entry point (\<open>cdk.ts\<close>)\<close>

text \<open>
  \<open>process.env\<close> is a map from variable names to strings. \<open>x || ""\<close> is the string
  \<open>x\<close> unless \<open>x\<close> is absent or empty.
\<close>

type_synonym ProcessEnv = "string \<rightharpoonup> string"

definition or_string :: "string option \<Rightarrow> string \<Rightarrow> string" where
  "or_string x d = (case x of None \<Rightarrow> d | Some s \<Rightarrow> if s = [] then d else s)"

text \<open>Lines 9-15 and 17-24: the props of the two targets.\<close>

definition ProdProps :: "ProcessEnv \<Rightarrow> WebsiteStackProps" where
  "ProdProps penv =
     \<lparr>env = Some \<lparr>account = penv ''CDK_ACCOUNT'', region = None\<rparr>,
      domainName = or_string (penv ''DOMAIN_NAME'') '''',
      isProd = True,
      siteSubDomain = None\<rparr>"

definition DevProps :: "ProcessEnv \<Rightarrow> WebsiteStackProps" where
  "DevProps penv =
     \<lparr>env = Some \<lparr>account = penv ''CDK_ACCOUNT'', region = None\<rparr>,
      domainName = or_string (penv ''DOMAIN_NAME'') '''',
      isProd = False,
      siteSubDomain = Some ''dev''\<rparr>"

text \<open>
  The program: both stacks are constructed in turn under the app; an error thrown in
  the first construction ends the program before the second.
\<close>

definition cdk_main :: "Library \<Rightarrow> ProcessEnv \<Rightarrow> error + WebsiteStack list" where
  "cdk_main lib penv =
     (let app = [] in
      case WebsiteStack_constructor lib app ''WebsiteStack-Prod'' (ProdProps penv) of
        Inl e \<Rightarrow> Inl e
      | Inr prodStack \<Rightarrow>
          (case WebsiteStack_constructor lib app ''WebsiteStack-Dev'' (DevProps penv) of
             Inl e \<Rightarrow> Inl e
           | Inr devStack \<Rightarrow> Inr [prodStack, devStack]))"

subsection \<open>Libraries for concrete runs\<close>

text \<open>
  Three libraries to run the constructor on concrete inputs: one that accepts every
  call, one that accepts every call but a bucket of a given name, and one that accepts
  every call but the lookup of a zone of a given domain name.
\<close>

definition accepts_all :: Library where
  "accepts_all c = True"

definition rejects_bucketName :: "string \<Rightarrow> Library" where
  "rejects_bucketName n c = (case c of Bucket_new this b \<Rightarrow> bucketName b \<noteq> n | _ \<Rightarrow> True)"

definition rejects_zone_domainName :: "string \<Rightarrow> Library" where
  "rejects_zone_domainName n c =
     (case c of HostedZone_fromLookup this z \<Rightarrow> zone_domainName z \<noteq> n | _ \<Rightarrow> True)"

section \<open>Properties\<close>

lemmas stack_defs = WebsiteStack_siteDomain_def
  WebsiteStack_siteSubDomain_def template_string_def addToResourcePolicy_def
  certificateDomains_def

subsection \<open>How a construction ends\<close>

lemma find_case_Inr:
  "(case List.find P xs of Some c \<Rightarrow> Inl (f c) | None \<Rightarrow> Inr v) = Inr st \<Longrightarrow> st = v"
  by (cases "List.find P xs") auto

lemma find_case_Inl:
  "(case List.find P xs of Some c \<Rightarrow> Inl (f c) | None \<Rightarrow> Inr v) = Inl e \<Longrightarrow>
   \<exists>c \<in> set xs. P c \<and> e = f c"
  by (cases "List.find P xs") (auto simp: find_Some_iff)

text \<open>A construction fails only with the error of a call the library rejects.\<close>

lemma constructor_Inl:
  "WebsiteStack_constructor lib scope sid props = Inl e \<Longrightarrow> \<exists>c. \<not> lib c \<and> e = LibraryError c"
  unfolding WebsiteStack_constructor_def Let_def
  by (drule find_case_Inl) auto

lemma constructor_not_ConfigurationError:
  "WebsiteStack_constructor lib scope sid props \<noteq> Inl ConfigurationError"
  using constructor_Inl [of lib scope sid props ConfigurationError] by auto

text \<open>The zone it looks up and the bucket it creates are those of the props as given.\<close>

lemma constructor_Inl_zone:
  "WebsiteStack_constructor lib scope sid props = Inl (LibraryError (HostedZone_fromLookup this z))
   \<Longrightarrow> zone_domainName z = domainName props"
  unfolding WebsiteStack_constructor_def Let_def
  by (drule find_case_Inl) (auto split: if_splits)

lemma constructor_Inl_bucket:
  "WebsiteStack_constructor lib scope sid props = Inl (LibraryError (Bucket_new this b))
   \<Longrightarrow> bucketName b = WebsiteStack_siteDomain props \<and> removalPolicy b = RETAIN"
  unfolding WebsiteStack_constructor_def Let_def
  by (drule find_case_Inl) (auto split: if_splits)

lemma accepts_all_Inr:
  "\<exists>st. WebsiteStack_constructor accepts_all scope sid props = Inr st"
  by (simp add: WebsiteStack_constructor_def Let_def accepts_all_def)

lemma cdk_main_Inl:
  "cdk_main lib penv = Inl e \<Longrightarrow>
   WebsiteStack_constructor lib [] ''WebsiteStack-Prod'' (ProdProps penv) = Inl e
   \<or> WebsiteStack_constructor lib [] ''WebsiteStack-Dev'' (DevProps penv) = Inl e"
  by (auto simp: cdk_main_def split: sum.splits)

subsection \<open>Empty fields\<close>

text \<open>
  C1, as amended. The constructor checks neither \<open>siteSubDomain\<close> nor \<open>domainName\<close> and
  never fails with a \<open>ConfigurationError\<close>, whatever the library. It derives the site
  domain first: with \<open>isProd = false\<close> and an empty \<open>siteSubDomain\<close> a dot followed by the
  domain name, with an empty \<open>domainName\<close> the subdomain followed by a dot. A
  construction that fails does so with the error of a call the library rejected, made
  after that derivation: a failing zone lookup was for \<open>domainName\<close> as given, and a
  failing bucket constructor was handed the derived string as the bucket name.
\<close>

theorem constructor_checks_no_field:
  "WebsiteStack_constructor lib scope sid props \<noteq> Inl ConfigurationError
   \<and> (\<not> isProd props \<and> siteSubDomain props = Some [] \<longrightarrow>
         WebsiteStack_siteDomain props = ''.'' @ domainName props)
   \<and> (domainName props = [] \<longrightarrow>
         WebsiteStack_siteDomain props
           = template_string (WebsiteStack_siteSubDomain props) @ ''.'')
   \<and> (WebsiteStack_constructor lib scope sid props = Inl e \<longrightarrow>
         (\<exists>c. \<not> lib c \<and> e = LibraryError c))
   \<and> (WebsiteStack_constructor lib scope sid props
         = Inl (LibraryError (HostedZone_fromLookup this z)) \<longrightarrow>
         zone_domainName z = domainName props)
   \<and> (WebsiteStack_constructor lib scope sid props = Inl (LibraryError (Bucket_new this b)) \<longrightarrow>
         bucketName b = WebsiteStack_siteDomain props)"
  using constructor_not_ConfigurationError constructor_Inl constructor_Inl_zone
    constructor_Inl_bucket
  by (simp add: stack_defs)

text \<open>
  The theorem at two inputs with an account: an empty subdomain, under a library that
  rejects the bucket name \<open>.example.com\<close>, and an empty domain name, under a library
  that rejects the lookup of a zone without a name.
\<close>

theorem constructor_checks_no_field_witness:
  "\<not> isProd \<lparr>env = Some \<lparr>account = Some ''123456789012'', region = None\<rparr>,
              domainName = ''example.com'', isProd = False, siteSubDomain = Some ''''\<rparr>
   \<and> siteSubDomain \<lparr>env = Some \<lparr>account = Some ''123456789012'', region = None\<rparr>,
              domainName = ''example.com'', isProd = False, siteSubDomain = Some ''''\<rparr> = Some []
   \<and> WebsiteStack_siteDomain \<lparr>env = Some \<lparr>account = Some ''123456789012'', region = None\<rparr>,
              domainName = ''example.com'', isProd = False, siteSubDomain = Some ''''\<rparr>
       = ''.example.com''
   \<and> (\<exists>this b.
         WebsiteStack_constructor (rejects_bucketName ''.example.com'') [] ''WebsiteStack-Dev''
           \<lparr>env = Some \<lparr>account = Some ''123456789012'', region = None\<rparr>,
            domainName = ''example.com'', isProd = False, siteSubDomain = Some ''''\<rparr>
         = Inl (LibraryError (Bucket_new this b))
         \<and> \<not> rejects_bucketName ''.example.com'' (Bucket_new this b)
         \<and> bucketName b = ''.example.com'')
   \<and> domainName \<lparr>env = Some \<lparr>account = Some ''123456789012'', region = None\<rparr>,
              domainName = '''', isProd = True, siteSubDomain = None\<rparr> = []
   \<and> WebsiteStack_siteDomain \<lparr>env = Some \<lparr>account = Some ''123456789012'', region = None\<rparr>,
              domainName = '''', isProd = True, siteSubDomain = None\<rparr> = ''www.''
   \<and> (\<exists>this z.
         WebsiteStack_constructor (rejects_zone_domainName '''') [] ''WebsiteStack-Prod''
           \<lparr>env = Some \<lparr>account = Some ''123456789012'', region = None\<rparr>,
            domainName = '''', isProd = True, siteSubDomain = None\<rparr>
         = Inl (LibraryError (HostedZone_fromLookup this z))
         \<and> zone_domainName z = [])"
proof -
  let ?P = "\<lparr>env = Some \<lparr>account = Some ''123456789012'', region = None\<rparr>,
            domainName = ''example.com'', isProd = False, siteSubDomain = Some ''''\<rparr>"
  let ?Q = "\<lparr>env = Some \<lparr>account = Some ''123456789012'', region = None\<rparr>,
            domainName = '''', isProd = True, siteSubDomain = None\<rparr>"
  obtain this b where
    b: "WebsiteStack_constructor (rejects_bucketName ''.example.com'') [] ''WebsiteStack-Dev'' ?P
          = Inl (LibraryError (Bucket_new this b))"
    by (simp add: WebsiteStack_constructor_def Let_def rejects_bucketName_def stack_defs)
  obtain that z where
    z: "WebsiteStack_constructor (rejects_zone_domainName '''') [] ''WebsiteStack-Prod'' ?Q
          = Inl (LibraryError (HostedZone_fromLookup that z))"
    by (simp add: WebsiteStack_constructor_def Let_def rejects_zone_domainName_def stack_defs)
  from b z
    constructor_checks_no_field
      [where lib = "rejects_bucketName ''.example.com''" and scope = "[]"
        and sid = "''WebsiteStack-Dev''" and props = ?P
        and e = "LibraryError (Bucket_new this b)" and this = this and b = b]
    constructor_checks_no_field
      [where lib = "rejects_zone_domainName ''''" and scope = "[]"
        and sid = "''WebsiteStack-Prod''" and props = ?Q
        and e = "LibraryError (HostedZone_fromLookup that z)" and this = that and z = z]
  show ?thesis
    by (auto simp: WebsiteStack_siteSubDomain_def template_string_def)
qed

text \<open>
  C1 as stated fails. With an account, \<open>isProd = false\<close>, \<open>siteSubDomain = ""\<close> and
  \<open>domainName = "example.com"\<close>, under a library that rejects the bucket name
  \<open>.example.com\<close> and nothing else, the construction does not end in a
  \<open>ConfigurationError\<close> before any derivation: the stack, the zone lookup and the access
  identity are accepted, and the error is the one thrown by \<open>new s3.Bucket\<close> (line 106)
  when it is handed the derived name \<open>.example.com\<close>.
\<close>

theorem empty_subdomain_reaches_bucket:
  "WebsiteStack_constructor (rejects_bucketName ''.example.com'') [] ''WebsiteStack-Dev''
     \<lparr>env = Some \<lparr>account = Some ''123456789012'', region = None\<rparr>,
      domainName = ''example.com'', isProd = False, siteSubDomain = Some ''''\<rparr>
   = Inl (LibraryError (Bucket_new
       \<lparr>stack_scope = [], stack_id = ''WebsiteStack-Dev'',
        stack_env = \<lparr>account = Some ''123456789012'', region = Some ''us-east-1''\<rparr>\<rparr>
       \<lparr>bucket_id = ''SiteBucket'', bucketName = ''.example.com'', publicReadAccess = False,
        blockPublicAccess = BLOCK_ALL, removalPolicy = RETAIN, resourcePolicy = []\<rparr>))"
  by (simp add: WebsiteStack_constructor_def Let_def rejects_bucketName_def stack_defs)

subsection \<open>Production\<close>

text \<open>
  C2. For every production props, when the construction returns a stack (every call
  into the library is accepted), the domains of the certificate (primary domain and
  subject alternative names) and the domain names of the distribution are each exactly
  the site domain and the apex \<open>domainName\<close>, two different entries, and exactly two A
  records are created: \<open>SiteAliasRecord\<close>, named by the site domain, and
  \<open>SiteAliasRecordApex\<close>, which is given the zone of \<open>domainName\<close> and no record name
  (lines 184-189), the record of the zone's apex.
\<close>

theorem prod_domains_and_records:
  "isProd props \<Longrightarrow> WebsiteStack_constructor lib scope sid props = Inr st \<Longrightarrow>
   WebsiteStack_siteDomain props = ''www.'' @ domainName props
   \<and> set (certificateDomains (stack_certificate st))
       = {WebsiteStack_siteDomain props, domainName props}
   \<and> card (set (certificateDomains (stack_certificate st))) = 2
   \<and> length (certificateDomains (stack_certificate st)) = 2
   \<and> set (domainNames (siteDistribution st))
       = {WebsiteStack_siteDomain props, domainName props}
   \<and> card (set (domainNames (siteDistribution st))) = 2
   \<and> length (domainNames (siteDistribution st)) = 2
   \<and> length (aRecords st) = 2
   \<and> map record_id (aRecords st) = [''SiteAliasRecord'', ''SiteAliasRecordApex'']
   \<and> map recordName (aRecords st) = [Some (WebsiteStack_siteDomain props), None]
   \<and> map (zone_domainName \<circ> zone) (aRecords st) = [domainName props, domainName props]"
  unfolding WebsiteStack_constructor_def Let_def
  by (drule find_case_Inr) (simp add: stack_defs)

text \<open>
  The theorem at \<open>example.com\<close> with an account, where the library accepts every call.
\<close>

theorem prod_domains_and_records_witness:
  "isProd \<lparr>env = Some \<lparr>account = Some ''123456789012'', region = None\<rparr>,
           domainName = ''example.com'', isProd = True, siteSubDomain = None\<rparr>
   \<and> (\<exists>st. WebsiteStack_constructor accepts_all [] ''WebsiteStack-Prod''
             \<lparr>env = Some \<lparr>account = Some ''123456789012'', region = None\<rparr>,
              domainName = ''example.com'', isProd = True, siteSubDomain = None\<rparr>
           = Inr st
          \<and> set (certificateDomains (stack_certificate st))
              = {''www.example.com'', ''example.com''}
          \<and> set (domainNames (siteDistribution st)) = {''www.example.com'', ''example.com''}
          \<and> map recordName (aRecords st) = [Some ''www.example.com'', None])"
proof -
  let ?P = "\<lparr>env = Some \<lparr>account = Some ''123456789012'', region = None\<rparr>,
            domainName = ''example.com'', isProd = True, siteSubDomain = None\<rparr>"
  obtain st where
    st: "WebsiteStack_constructor accepts_all [] ''WebsiteStack-Prod'' ?P = Inr st"
    using accepts_all_Inr by blast
  have "isProd ?P" by simp
  from prod_domains_and_records [OF this st] st show ?thesis by auto
qed

text \<open>
  C4. For every production props the subdomain is the literal \<open>www\<close> whatever
  \<open>siteSubDomain\<close> the props carry (\<open>x\<close> below is any value, absent or present), so the
  site domain is \<open>www.\<close> followed by \<open>domainName\<close>; and it is the bucket name and the
  primary domain of the certificate of the stack, when the construction returns one.
\<close>

theorem prod_subdomain_is_www:
  "isProd props \<Longrightarrow>
   WebsiteStack_siteSubDomain (props\<lparr>siteSubDomain := x\<rparr>) = Some ''www''
   \<and> WebsiteStack_siteDomain (props\<lparr>siteSubDomain := x\<rparr>) = ''www.'' @ domainName props
   \<and> (WebsiteStack_constructor lib scope sid (props\<lparr>siteSubDomain := x\<rparr>) = Inr st \<longrightarrow>
         bucketName (siteBucket st) = ''www.'' @ domainName props
         \<and> cert_domainName (stack_certificate st) = ''www.'' @ domainName props)"
  unfolding WebsiteStack_constructor_def Let_def
  by (auto dest!: find_case_Inr simp: stack_defs)

theorem prod_subdomain_is_www_witness:
  "isProd \<lparr>env = Some \<lparr>account = Some ''123456789012'', region = None\<rparr>,
           domainName = ''example.com'', isProd = True, siteSubDomain = None\<rparr>
   \<and> WebsiteStack_siteDomain
        \<lparr>env = Some \<lparr>account = Some ''123456789012'', region = None\<rparr>,
         domainName = ''example.com'', isProd = True, siteSubDomain = Some ''dev''\<rparr>
       = ''www.example.com''
   \<and> (\<exists>st. WebsiteStack_constructor accepts_all [] ''WebsiteStack-Prod''
             \<lparr>env = Some \<lparr>account = Some ''123456789012'', region = None\<rparr>,
              domainName = ''example.com'', isProd = True, siteSubDomain = Some ''dev''\<rparr>
           = Inr st
          \<and> bucketName (siteBucket st) = ''www.example.com'')"
proof -
  let ?P = "\<lparr>env = Some \<lparr>account = Some ''123456789012'', region = None\<rparr>,
            domainName = ''example.com'', isProd = True, siteSubDomain = None\<rparr>"
  obtain st where
    st: "WebsiteStack_constructor accepts_all [] ''WebsiteStack-Prod''
           (?P\<lparr>siteSubDomain := Some ''dev''\<rparr>) = Inr st"
    using accepts_all_Inr by blast
  have "isProd ?P" by simp
  from prod_subdomain_is_www [OF this, of "Some ''dev''" accepts_all "[]" "''WebsiteStack-Prod''" st]
    st
  show ?thesis by auto
qed

subsection \<open>Non-production\<close>

text \<open>
  C3. For every non-production props with subdomain \<open>s\<close> the site domain is \<open>s\<close>, a dot
  and \<open>domainName\<close>. When the construction returns a stack, its certificate covers that
  one domain and has no subject alternative names, its distribution accepts that one
  domain, and its only A record is \<open>SiteAliasRecord\<close> with that name: the apex
  \<open>domainName\<close> is in none of the three, neither by name nor as a record without a
  name.
\<close>

theorem nonprod_subdomain_only:
  "\<not> isProd props \<Longrightarrow> siteSubDomain props = Some s \<Longrightarrow>
   WebsiteStack_constructor lib scope sid props = Inr st \<Longrightarrow>
   WebsiteStack_siteDomain props = s @ ''.'' @ domainName props
   \<and> certificateDomains (stack_certificate st) = [s @ ''.'' @ domainName props]
   \<and> domainName props \<notin> set (certificateDomains (stack_certificate st))
   \<and> domainNames (siteDistribution st) = [s @ ''.'' @ domainName props]
   \<and> domainName props \<notin> set (domainNames (siteDistribution st))
   \<and> map record_id (aRecords st) = [''SiteAliasRecord'']
   \<and> map recordName (aRecords st) = [Some (s @ ''.'' @ domainName props)]
   \<and> Some (domainName props) \<notin> set (map recordName (aRecords st))
   \<and> None \<notin> set (map recordName (aRecords st))"
  unfolding WebsiteStack_constructor_def Let_def
  by (drule find_case_Inr) (simp add: stack_defs)

text \<open>
  The theorem at \<open>dev.example.com\<close> with an account, where the library accepts every
  call.
\<close>

theorem nonprod_subdomain_only_witness:
  "\<not> isProd \<lparr>env = Some \<lparr>account = Some ''123456789012'', region = None\<rparr>,
             domainName = ''example.com'', isProd = False, siteSubDomain = Some ''dev''\<rparr>
   \<and> siteSubDomain \<lparr>env = Some \<lparr>account = Some ''123456789012'', region = None\<rparr>,
             domainName = ''example.com'', isProd = False, siteSubDomain = Some ''dev''\<rparr>
       = Some ''dev''
   \<and> (\<exists>st. WebsiteStack_constructor accepts_all [] ''WebsiteStack-Dev''
             \<lparr>env = Some \<lparr>account = Some ''123456789012'', region = None\<rparr>,
              domainName = ''example.com'', isProd = False, siteSubDomain = Some ''dev''\<rparr>
           = Inr st
          \<and> certificateDomains (stack_certificate st) = [''dev.example.com'']
          \<and> domainNames (siteDistribution st) = [''dev.example.com'']
          \<and> map recordName (aRecords st) = [Some ''dev.example.com''])"
proof -
  let ?P = "\<lparr>env = Some \<lparr>account = Some ''123456789012'', region = None\<rparr>,
            domainName = ''example.com'', isProd = False, siteSubDomain = Some ''dev''\<rparr>"
  obtain st where
    st: "WebsiteStack_constructor accepts_all [] ''WebsiteStack-Dev'' ?P = Inr st"
    using accepts_all_Inr by blast
  have "\<not> isProd ?P" and "siteSubDomain ?P = Some ''dev''" by simp_all
  from nonprod_subdomain_only [OF this st] st show ?thesis by auto
qed

subsection \<open>Every props\<close>

text \<open>
  C5. For every props, production or not, when the construction returns a stack, its
  distribution is given its certificate, and the domain names the distribution accepts
  are the domains that certificate covers (primary domain and subject alternative
  names): the same set, and the same list.
\<close>

theorem distribution_domains_eq_certificate_domains:
  "WebsiteStack_constructor lib scope sid props = Inr st \<Longrightarrow>
   certificate (siteDistribution st) = stack_certificate st
   \<and> set (domainNames (siteDistribution st)) = set (certificateDomains (stack_certificate st))
   \<and> domainNames (siteDistribution st) = certificateDomains (stack_certificate st)"
  unfolding WebsiteStack_constructor_def Let_def
  by (drule find_case_Inr) (simp add: stack_defs)

theorem distribution_domains_eq_certificate_domains_witness:
  "\<exists>st. WebsiteStack_constructor accepts_all [] ''WebsiteStack-Prod''
          \<lparr>env = Some \<lparr>account = Some ''123456789012'', region = None\<rparr>,
           domainName = ''example.com'', isProd = True, siteSubDomain = None\<rparr> = Inr st
     \<and> set (domainNames (siteDistribution st)) = set (certificateDomains (stack_certificate st))"
  using accepts_all_Inr distribution_domains_eq_certificate_domains by blast

text \<open>
  C6. For every props, when the construction returns a stack, the one derived site
  domain is the name of its bucket (also of the bucket behind the distribution's
  origin), the primary domain of its certificate (also of the certificate the
  distribution uses), the first domain name of its distribution and the name of its
  record \<open>SiteAliasRecord\<close>.
\<close>

theorem siteDomain_four_uses:
  "WebsiteStack_constructor lib scope sid props = Inr st \<Longrightarrow>
   \<exists>ds r rs.
     bucketName (siteBucket st) = WebsiteStack_siteDomain props
     \<and> bucketName (origin_bucket (origin (defaultBehavior (siteDistribution st))))
         = WebsiteStack_siteDomain props
     \<and> cert_domainName (stack_certificate st) = WebsiteStack_siteDomain props
     \<and> cert_domainName (certificate (siteDistribution st)) = WebsiteStack_siteDomain props
     \<and> domainNames (siteDistribution st) = WebsiteStack_siteDomain props # ds
     \<and> aRecords st = r # rs
     \<and> record_id r = ''SiteAliasRecord''
     \<and> recordName r = Some (WebsiteStack_siteDomain props)"
  unfolding WebsiteStack_constructor_def Let_def
  by (drule find_case_Inr) (simp add: stack_defs)

theorem siteDomain_four_uses_witness:
  "\<exists>st r rs. WebsiteStack_constructor accepts_all [] ''WebsiteStack-Dev''
          \<lparr>env = Some \<lparr>account = Some ''123456789012'', region = None\<rparr>,
           domainName = ''example.com'', isProd = False, siteSubDomain = Some ''dev''\<rparr> = Inr st
     \<and> bucketName (siteBucket st) = ''dev.example.com''
     \<and> cert_domainName (stack_certificate st) = ''dev.example.com''
     \<and> aRecords st = r # rs
     \<and> recordName r = Some ''dev.example.com''"
proof -
  let ?P = "\<lparr>env = Some \<lparr>account = Some ''123456789012'', region = None\<rparr>,
            domainName = ''example.com'', isProd = False, siteSubDomain = Some ''dev''\<rparr>"
  obtain st where
    st: "WebsiteStack_constructor accepts_all [] ''WebsiteStack-Dev'' ?P = Inr st"
    using accepts_all_Inr by blast
  from siteDomain_four_uses [OF st] st show ?thesis
    by (auto simp: stack_defs)
qed

text \<open>
  C7. For every props, when the construction returns a stack, its distribution has
  two error responses, for the origin's 404 and 403 in this order; each answers with
  status 200 and the page \<open>/index.html\<close>, and each has a time to live of zero seconds.
\<close>

theorem errorResponses_rewrite_to_index:
  "WebsiteStack_constructor lib scope sid props = Inr st \<Longrightarrow>
   map httpStatus (errorResponses (siteDistribution st)) = [404, 403]
   \<and> map responseHttpStatus (errorResponses (siteDistribution st)) = [Some 200, Some 200]
   \<and> map responsePagePath (errorResponses (siteDistribution st))
       = [Some ''/index.html'', Some ''/index.html'']
   \<and> map (map_option toSeconds \<circ> ttl) (errorResponses (siteDistribution st))
       = [Some 0, Some 0]"
  unfolding WebsiteStack_constructor_def Let_def
  by (drule find_case_Inr) (simp add: stack_defs)

theorem errorResponses_rewrite_to_index_witness:
  "\<exists>st. WebsiteStack_constructor accepts_all [] ''WebsiteStack-Prod''
          \<lparr>env = Some \<lparr>account = Some ''123456789012'', region = None\<rparr>,
           domainName = ''example.com'', isProd = True, siteSubDomain = None\<rparr> = Inr st
     \<and> map httpStatus (errorResponses (siteDistribution st)) = [404, 403]
     \<and> map responseHttpStatus (errorResponses (siteDistribution st)) = [Some 200, Some 200]"
  using accepts_all_Inr errorResponses_rewrite_to_index by blast

text \<open>
  C10. For every props, production or not, when the construction returns a stack, its
  site bucket, which is also the bucket behind the distribution's origin, has the
  removal policy \<open>RETAIN\<close>; and whenever the bucket constructor is what fails, the
  bucket it was asked for had that policy too.
\<close>

theorem siteBucket_retained:
  "(WebsiteStack_constructor lib scope sid props = Inr st \<longrightarrow>
      removalPolicy (siteBucket st) = RETAIN
      \<and> removalPolicy (origin_bucket (origin (defaultBehavior (siteDistribution st)))) = RETAIN)
   \<and> (WebsiteStack_constructor lib scope sid props = Inl (LibraryError (Bucket_new this b)) \<longrightarrow>
        removalPolicy b = RETAIN)"
proof -
  have "WebsiteStack_constructor lib scope sid props = Inr st \<Longrightarrow>
      removalPolicy (siteBucket st) = RETAIN
      \<and> removalPolicy (origin_bucket (origin (defaultBehavior (siteDistribution st)))) = RETAIN"
    unfolding WebsiteStack_constructor_def Let_def
    by (drule find_case_Inr) (simp add: stack_defs)
  moreover have
    "WebsiteStack_constructor lib scope sid props = Inl (LibraryError (Bucket_new this b)) \<Longrightarrow>
      removalPolicy b = RETAIN"
    using constructor_Inl_bucket by blast
  ultimately show ?thesis by blast
qed

theorem siteBucket_retained_witness:
  "(\<exists>st. WebsiteStack_constructor accepts_all [] ''WebsiteStack-Dev''
          \<lparr>env = Some \<lparr>account = Some ''123456789012'', region = None\<rparr>,
           domainName = ''example.com'', isProd = False, siteSubDomain = Some ''dev''\<rparr> = Inr st
      \<and> removalPolicy (siteBucket st) = RETAIN)
   \<and> (\<exists>this b. WebsiteStack_constructor (rejects_bucketName ''my_site.example.com'') []
          ''WebsiteStack-Dev''
          \<lparr>env = Some \<lparr>account = Some ''123456789012'', region = None\<rparr>,
           domainName = ''example.com'', isProd = False, siteSubDomain = Some ''my_site''\<rparr>
        = Inl (LibraryError (Bucket_new this b))
      \<and> removalPolicy b = RETAIN)"
proof -
  let ?P = "\<lparr>env = Some \<lparr>account = Some ''123456789012'', region = None\<rparr>,
            domainName = ''example.com'', isProd = False, siteSubDomain = Some ''dev''\<rparr>"
  let ?Q = "\<lparr>env = Some \<lparr>account = Some ''123456789012'', region = None\<rparr>,
            domainName = ''example.com'', isProd = False, siteSubDomain = Some ''my_site''\<rparr>"
  obtain st where
    st: "WebsiteStack_constructor accepts_all [] ''WebsiteStack-Dev'' ?P = Inr st"
    using accepts_all_Inr by blast
  obtain this b where
    b: "WebsiteStack_constructor (rejects_bucketName ''my_site.example.com'') []
          ''WebsiteStack-Dev'' ?Q = Inl (LibraryError (Bucket_new this b))"
    by (simp add: WebsiteStack_constructor_def Let_def rejects_bucketName_def stack_defs)
  from st b
    siteBucket_retained [where lib = accepts_all and scope = "[]"
      and sid = "''WebsiteStack-Dev''" and props = ?P and st = st]
    siteBucket_retained [where lib = "rejects_bucketName ''my_site.example.com''"
      and scope = "[]" and sid = "''WebsiteStack-Dev''" and props = ?Q
      and this = this and b = b]
  show ?thesis by blast
qed



subsection \<open>The entry point\<close>

text \<open>
  C8, as amended. When \<open>DOMAIN_NAME\<close> is absent from the environment, the program
  does not fail on the absence: the props of both targets have the empty string as
  \<open>domainName\<close>. The program raises no error of its own, and a run that fails does so
  with the error of a call the library rejected; a failing zone lookup was for the
  empty name. The production target is constructed first: when the library accepts its
  stack and rejects the lookup of its zone under the empty name, the program ends
  there, and the development target is not constructed.
\<close>

theorem missing_DOMAIN_NAME_is_empty:
  "penv ''DOMAIN_NAME'' = None \<Longrightarrow>
   domainName (ProdProps penv) = []
   \<and> domainName (DevProps penv) = []
   \<and> cdk_main lib penv \<noteq> Inl ConfigurationError
   \<and> (cdk_main lib penv = Inl e \<longrightarrow> (\<exists>c. \<not> lib c \<and> e = LibraryError c))
   \<and> (cdk_main lib penv = Inl (LibraryError (HostedZone_fromLookup this z)) \<longrightarrow>
         zone_domainName z = [])
   \<and> (lib (Stack_super [] ''WebsiteStack-Prod''
              ((ProdProps penv)\<lparr>env := Some \<lparr>account = penv ''CDK_ACCOUNT'',
                                            region = Some ''us-east-1''\<rparr>\<rparr>))
       \<and> \<not> lib (HostedZone_fromLookup
                  \<lparr>stack_scope = [], stack_id = ''WebsiteStack-Prod'',
                   stack_env = \<lparr>account = penv ''CDK_ACCOUNT'', region = Some ''us-east-1''\<rparr>\<rparr>
                  \<lparr>zone_id = ''Zone'', zone_domainName = []\<rparr>) \<longrightarrow>
       cdk_main lib penv
         = Inl (LibraryError (HostedZone_fromLookup
                  \<lparr>stack_scope = [], stack_id = ''WebsiteStack-Prod'',
                   stack_env = \<lparr>account = penv ''CDK_ACCOUNT'', region = Some ''us-east-1''\<rparr>\<rparr>
                  \<lparr>zone_id = ''Zone'', zone_domainName = []\<rparr>)))"
proof -
  assume absent: "penv ''DOMAIN_NAME'' = None"
  have props: "domainName (ProdProps penv) = []" "domainName (DevProps penv) = []"
    using absent by (simp_all add: ProdProps_def DevProps_def or_string_def)
  have own: "cdk_main lib penv \<noteq> Inl ConfigurationError"
    using cdk_main_Inl [of lib penv ConfigurationError] constructor_not_ConfigurationError
    by blast
  have lib: "cdk_main lib penv = Inl e \<longrightarrow> (\<exists>c. \<not> lib c \<and> e = LibraryError c)"
    using cdk_main_Inl [of lib penv e] constructor_Inl by blast
  have zone: "cdk_main lib penv = Inl (LibraryError (HostedZone_fromLookup this z)) \<longrightarrow>
      zone_domainName z = []"
    using cdk_main_Inl [of lib penv "LibraryError (HostedZone_fromLookup this z)"]
      constructor_Inl_zone props
    by fastforce
  have first: "lib (Stack_super [] ''WebsiteStack-Prod''
              ((ProdProps penv)\<lparr>env := Some \<lparr>account = penv ''CDK_ACCOUNT'',
                                            region = Some ''us-east-1''\<rparr>\<rparr>))
       \<and> \<not> lib (HostedZone_fromLookup
                  \<lparr>stack_scope = [], stack_id = ''WebsiteStack-Prod'',
                   stack_env = \<lparr>account = penv ''CDK_ACCOUNT'', region = Some ''us-east-1''\<rparr>\<rparr>
                  \<lparr>zone_id = ''Zone'', zone_domainName = []\<rparr>) \<longrightarrow>
       cdk_main lib penv
         = Inl (LibraryError (HostedZone_fromLookup
                  \<lparr>stack_scope = [], stack_id = ''WebsiteStack-Prod'',
                   stack_env = \<lparr>account = penv ''CDK_ACCOUNT'', region = Some ''us-east-1''\<rparr>\<rparr>
                  \<lparr>zone_id = ''Zone'', zone_domainName = []\<rparr>))"
    using absent
    by (simp add: cdk_main_def WebsiteStack_constructor_def Let_def ProdProps_def or_string_def)
  from props own lib zone first show ?thesis by blast
qed

text \<open>
  The theorem at an environment that has an account and no domain name, under a
  library that rejects the lookup of a zone without a name.
\<close>

theorem missing_DOMAIN_NAME_is_empty_witness:
  "[''CDK_ACCOUNT'' \<mapsto> ''123456789012''] ''DOMAIN_NAME'' = None
   \<and> domainName (ProdProps [''CDK_ACCOUNT'' \<mapsto> ''123456789012'']) = []
   \<and> domainName (DevProps [''CDK_ACCOUNT'' \<mapsto> ''123456789012'']) = []
   \<and> cdk_main (rejects_zone_domainName []) [''CDK_ACCOUNT'' \<mapsto> ''123456789012'']
       = Inl (LibraryError (HostedZone_fromLookup
                \<lparr>stack_scope = [], stack_id = ''WebsiteStack-Prod'',
                 stack_env = \<lparr>account = Some ''123456789012'', region = Some ''us-east-1''\<rparr>\<rparr>
                \<lparr>zone_id = ''Zone'', zone_domainName = []\<rparr>))"
proof -
  have absent: "[''CDK_ACCOUNT'' \<mapsto> ''123456789012''] ''DOMAIN_NAME'' = None" by simp
  from missing_DOMAIN_NAME_is_empty
    [where penv = "[''CDK_ACCOUNT'' \<mapsto> ''123456789012'']"
      and lib = "rejects_zone_domainName []", OF absent]
  show ?thesis by (simp add: rejects_zone_domainName_def)
qed

text \<open>
  C8 as stated fails. With neither \<open>DOMAIN_NAME\<close> nor \<open>CDK_ACCOUNT\<close> in the
  environment, under a library that rejects the lookup of a zone without a name and
  nothing else, the program does not supply the empty string to both targets rather
  than failing: it fails in the construction of the production target, at the zone
  lookup of line 92, and the development target is never constructed.
\<close>

theorem missing_DOMAIN_NAME_fails_at_zone_lookup:
  "cdk_main (rejects_zone_domainName []) Map.empty
   = Inl (LibraryError (HostedZone_fromLookup
            \<lparr>stack_scope = [], stack_id = ''WebsiteStack-Prod'',
             stack_env = \<lparr>account = None, region = Some ''us-east-1''\<rparr>\<rparr>
            \<lparr>zone_id = ''Zone'', zone_domainName = []\<rparr>))"
  by (simp add: cdk_main_def WebsiteStack_constructor_def Let_def ProdProps_def
      or_string_def rejects_zone_domainName_def)

end
